theory Spec2Isabelle
  imports Complex_Main "HOL-Library.Multiset"
begin

section \<open>Data model\<close>

text \<open>
  The two criteria of \<^verbatim>\<open>fairseq/criterions/entmax_loss.py\<close> and
  \<^verbatim>\<open>fairseq/criterions/fyls_loss.py\<close>. Floating-point numbers are idealised as
  real numbers throughout: rounding error, infinities and NaN are not represented.
  The comparisons of \<^verbatim>\<open>loss_alpha\<close> with 1, 1.5 and 2 are exact in both readings,
  since the three constants are binary fractions.
\<close>

datatype error = AssertionError | RuntimeError | IndexError | ZeroDivisionError

text \<open>
  The loss classes of the external \<^verbatim>\<open>entmax\<close> package and of \<^verbatim>\<open>torch.nn\<close> that a
  criterion can bind. \<^verbatim>\<open>partial(EntmaxBisectLoss, alpha=a)\<close> is \<open>EntmaxBisectLoss a\<close>.
\<close>

datatype functional =
    CrossEntropyLoss
  | Entmax15Loss
  | SparsemaxLoss
  | EntmaxBisectLoss real

text \<open>
  Modelled from the spec: the constructor of the base class \<^verbatim>\<open>FairseqCriterion\<close> is not
  part of the two source files. It supplies the configured padding index, an integer known
  at construction time; the task is represented by that index.
\<close>

record task =
  pad :: int

text \<open>
  The attributes of a criterion object. \<^verbatim>\<open>EntmaxLossCriterion\<close> has the first three;
  \<^verbatim>\<open>FenchelYoungLabelSmoothingLossCriterion\<close> has \<open>label_smoothing\<close> as well.
\<close>

record EntmaxLossCriterion =
  padding_idx :: int
  sentence_avg :: bool
  criterion :: functional

record FenchelYoungLabelSmoothingLossCriterion = EntmaxLossCriterion +
  label_smoothing :: real

section \<open>Construction\<close>

text \<open>
  \<^verbatim>\<open>EntmaxLossCriterion.__init__\<close>: the assertion, then one
  \<^verbatim>\<open>if / elif / else\<close> chain.
\<close>

definition entmax_init :: "task \<Rightarrow> real \<Rightarrow> bool \<Rightarrow> error + EntmaxLossCriterion" where
  "entmax_init tsk loss_alpha sentence_avg_arg =
     (if \<not> (loss_alpha > 1) then Inl AssertionError
      else Inr \<lparr> padding_idx = pad tsk,
                 sentence_avg = sentence_avg_arg,
                 criterion =
                   (if loss_alpha = 3 / 2 then Entmax15Loss
                    else if loss_alpha = 2 then SparsemaxLoss
                    else EntmaxBisectLoss loss_alpha) \<rparr>)"

text \<open>
  \<^verbatim>\<open>FenchelYoungLabelSmoothingLossCriterion.__init__\<close>: the assertion, then two
  statements in sequence. The first is \<^verbatim>\<open>if loss_alpha == 1\<close> on its own; the second is
  the chain \<^verbatim>\<open>if loss_alpha == 1.5 / elif loss_alpha == 2 / else\<close>, which assigns
  \<^verbatim>\<open>self.criterion\<close> on every path. \<open>c1\<close> is the attribute after the first statement
  (\<open>None\<close> when still unset), \<open>c2\<close> its value after the second.
\<close>

definition fyls_init ::
  "task \<Rightarrow> real \<Rightarrow> real \<Rightarrow> bool \<Rightarrow> error + FenchelYoungLabelSmoothingLossCriterion" where
  "fyls_init tsk loss_alpha label_smoothing_arg sentence_avg_arg =
     (if \<not> (loss_alpha \<ge> 1) then Inl AssertionError
      else
        let c1 = (if loss_alpha = 1 then Some CrossEntropyLoss else None);
            c2 = (if loss_alpha = 3 / 2 then Entmax15Loss
                  else if loss_alpha = 2 then SparsemaxLoss
                  else EntmaxBisectLoss loss_alpha)
        in Inr \<lparr> padding_idx = pad tsk,
                 sentence_avg = sentence_avg_arg,
                 criterion = c2,
                 label_smoothing = label_smoothing_arg \<rparr>)"

section \<open>Tensors\<close>

text \<open>
  A loss value is a zero-dimensional tensor (\<open>Scalar\<close>) or a one-dimensional one
  (\<open>Vector\<close>, one entry per position). The flattened logits are a two-dimensional tensor:
  \<open>ncols\<close> is \<^verbatim>\<open>logits.size(-1)\<close>, the vocabulary size, and every row has that length
  (\<open>wf_tensor2\<close>). The model's output is three-dimensional (sentences, positions,
  vocabulary).
\<close>

datatype tensor = Scalar real | Vector "real list"

record tensor2 =
  ncols :: nat
  rows :: "real list list"

definition wf_tensor2 :: "tensor2 \<Rightarrow> bool" where
  "wf_tensor2 t = list_all (\<lambda>r. length r = ncols t) (rows t)"

record tensor3 =
  size_last :: nat
  blocks :: "real list list list"

text \<open>\<^verbatim>\<open>logits.view(-1, logits.size(-1))\<close>\<close>

definition view2 :: "tensor3 \<Rightarrow> tensor2" where
  "view2 t = \<lparr> ncols = size_last t, rows = concat (blocks t) \<rparr>"

text \<open>
  Elementwise operations on one-dimensional tensors follow torch's broadcasting: equal
  lengths combine entry by entry, a tensor of length one is repeated, any other pair of
  lengths raises.
\<close>

definition broadcast2 ::
  "(real \<Rightarrow> real \<Rightarrow> real) \<Rightarrow> real list \<Rightarrow> real list \<Rightarrow> error + real list" where
  "broadcast2 f u v =
     (if length u = length v then Inr (map2 f u v)
      else if length u = 1 then Inr (map (f (hd u)) v)
      else if length v = 1 then Inr (map (\<lambda>a. f a (hd v)) u)
      else Inl RuntimeError)"

fun tensor_add :: "tensor \<Rightarrow> tensor \<Rightarrow> error + tensor" where
  "tensor_add (Scalar a) (Scalar b) = Inr (Scalar (a + b))"
| "tensor_add (Scalar a) (Vector v) = Inr (Vector (map (\<lambda>y. a + y) v))"
| "tensor_add (Vector u) (Scalar b) = Inr (Vector (map (\<lambda>x. x + b) u))"
| "tensor_add (Vector u) (Vector v) =
     (case broadcast2 (+) u v of Inl e \<Rightarrow> Inl e | Inr w \<Rightarrow> Inr (Vector w))"

text \<open>
  \<^verbatim>\<open>logits.gather(1, index.unsqueeze(1)).squeeze(1)\<close>: entry \<open>i\<close> of the result is
  \<open>logits[i, index[i]]\<close>. torch raises when the index has more rows than the input or
  when an index lies outside \<open>0 \<le> j < ncols\<close> (negative indices are not wrapped); an index
  with fewer rows than the input reads the leading rows only.
\<close>

definition gather1 :: "tensor2 \<Rightarrow> int list \<Rightarrow> error + real list" where
  "gather1 t index =
     (if length index > length (rows t) then Inl RuntimeError
      else if \<not> list_all (\<lambda>j. 0 \<le> j \<and> j < int (ncols t)) index then Inl RuntimeError
      else Inr (map2 (\<lambda>r j. r ! nat j) (rows t) index))"

text \<open>\<^verbatim>\<open>logits.sum(dim=1)\<close>, \<^verbatim>\<open>logits.mean(dim=1)\<close> and the column \<^verbatim>\<open>logits[:, j]\<close>
  (a negative \<open>j\<close> counts from the end, an index out of range raises).\<close>

definition sum_dim1 :: "tensor2 \<Rightarrow> real list" where
  "sum_dim1 t = map sum_list (rows t)"

definition mean_dim1 :: "tensor2 \<Rightarrow> real list" where
  "mean_dim1 t = map (\<lambda>r. sum_list r / real (ncols t)) (rows t)"

definition select_col :: "tensor2 \<Rightarrow> int \<Rightarrow> error + real list" where
  "select_col t j =
     (let n = int (ncols t); k = (if j < 0 then n + j else j)
      in if 0 \<le> k \<and> k < n then Inr (map (\<lambda>r. r ! nat k) (rows t))
         else Inl IndexError)"

text \<open>\<^verbatim>\<open>x.masked_fill_(mask, v)\<close>: the mask is broadcast to the shape of \<open>x\<close>.\<close>

definition masked_fill :: "real list \<Rightarrow> bool list \<Rightarrow> real \<Rightarrow> error + real list" where
  "masked_fill xs msk v =
     (if length msk = length xs then Inr (map2 (\<lambda>x m. if m then v else x) xs msk)
      else if length msk = 1 then Inr (map (\<lambda>x. if hd msk then v else x) xs)
      else Inl RuntimeError)"

section \<open>External collaborators\<close>

text \<open>
  The batch: \<^verbatim>\<open>sample["net_input"]\<close>, \<^verbatim>\<open>sample["target"]\<close> (sentences by positions, so
  \<^verbatim>\<open>.size(0)\<close> is its length) and \<^verbatim>\<open>sample["ntokens"]\<close>. The model is a callable whose
  output has the logits as first element, with a method \<^verbatim>\<open>get_targets\<close>. The loss library
  applies a bound functional: \<^verbatim>\<open>criterion(ignore_index=p, reduction=r)(logits, target)\<close>.
  All three are parameters of the criteria.
\<close>

record 'i sample =
  net_input :: 'i
  target :: "int list list"
  ntokens :: int

record ('i, 'x) model =
  apply_model :: "'i \<Rightarrow> tensor3 \<times> 'x"
  get_targets :: "'i sample \<Rightarrow> tensor3 \<times> 'x \<Rightarrow> int list list"

datatype reduction = ReduceSum | ReduceNone

type_synonym loss_library =
  "functional \<Rightarrow> int \<Rightarrow> reduction \<Rightarrow> tensor2 \<Rightarrow> int list \<Rightarrow> tensor"

text \<open>The values of a logging dictionary built by \<^verbatim>\<open>forward\<close>.\<close>

datatype logval = TensorVal tensor | IntVal int

type_synonym logging_output = "string \<rightharpoonup> logval"

section \<open>Loss computation\<close>

text \<open>The first lines of both \<^verbatim>\<open>compute_loss\<close> methods: the flattened logits and targets.\<close>

definition flat_logits :: "tensor3 \<times> 'x \<Rightarrow> tensor2" where
  "flat_logits net_output = view2 (fst net_output)"

definition flat_target :: "('i, 'x) model \<Rightarrow> 'i sample \<Rightarrow> tensor3 \<times> 'x \<Rightarrow> int list" where
  "flat_target mdl smp net_output = concat (get_targets mdl smp net_output)"

definition reduction_of :: "bool \<Rightarrow> reduction" where
  "reduction_of reduce = (if reduce then ReduceSum else ReduceNone)"

text \<open>\<^verbatim>\<open>EntmaxLossCriterion.compute_loss\<close> and \<^verbatim>\<open>EntmaxLossCriterion.forward\<close>\<close>

definition entmax_compute_loss ::
  "loss_library \<Rightarrow> EntmaxLossCriterion \<Rightarrow> ('i, 'x) model \<Rightarrow> tensor3 \<times> 'x \<Rightarrow> 'i sample \<Rightarrow> bool
     \<Rightarrow> tensor \<times> tensor" where
  "entmax_compute_loss lib self mdl net_output smp reduce =
     (let logits = flat_logits net_output;
          tgt = flat_target mdl smp net_output;
          loss = lib (criterion self) (padding_idx self) (reduction_of reduce) logits tgt
      in (loss, loss))"

definition entmax_forward ::
  "loss_library \<Rightarrow> EntmaxLossCriterion \<Rightarrow> ('i, 'x) model \<Rightarrow> 'i sample \<Rightarrow> bool
     \<Rightarrow> tensor \<times> int \<times> logging_output" where
  "entmax_forward lib self mdl smp reduce =
     (let net_output = apply_model mdl (net_input smp);
          loss = fst (entmax_compute_loss lib self mdl net_output smp reduce);
          sample_size =
            (if sentence_avg self then int (length (target smp)) else ntokens smp);
          logging_output =
            [''loss'' \<mapsto> TensorVal loss,
             ''ntokens'' \<mapsto> IntVal (ntokens smp),
             ''nsentences'' \<mapsto> IntVal (int (length (target smp))),
             ''sample_size'' \<mapsto> IntVal sample_size]
      in (loss, sample_size, logging_output))"

text \<open>
  \<^verbatim>\<open>FenchelYoungLabelSmoothingLossCriterion._compute_smoothing\<close>. \<open>z_bar_of\<close> is
  the \<^verbatim>\<open>if / else\<close> that assigns \<^verbatim>\<open>z_bar\<close>.
\<close>

definition z_bar_of :: "int \<Rightarrow> tensor2 \<Rightarrow> error + real list" where
  "z_bar_of p logits =
     (if 0 \<le> p \<and> p < int (ncols logits) then
        (case select_col logits p of
           Inl e \<Rightarrow> Inl e
         | Inr col \<Rightarrow>
             (case broadcast2 (-) (sum_dim1 logits) col of
                Inl e \<Rightarrow> Inl e
              | Inr z_sum \<Rightarrow>
                  Inr (map (\<lambda>x. x / real_of_int (int (ncols logits) - 1)) z_sum)))
      else Inr (mean_dim1 logits))"

definition compute_smoothing ::
  "FenchelYoungLabelSmoothingLossCriterion \<Rightarrow> tensor2 \<Rightarrow> int list \<Rightarrow> bool \<Rightarrow> error + tensor" where
  "compute_smoothing self logits tgt reduce =
     (case gather1 logits tgt of
        Inl e \<Rightarrow> Inl e
      | Inr z_ystar \<Rightarrow>
     (case z_bar_of (padding_idx self) logits of
        Inl e \<Rightarrow> Inl e
      | Inr z_bar \<Rightarrow>
     (case broadcast2 (-) z_ystar z_bar of
        Inl e \<Rightarrow> Inl e
      | Inr diff \<Rightarrow>
     (case masked_fill (map (\<lambda>d. label_smoothing self * d) diff)
                       (map (\<lambda>t. t = padding_idx self) tgt) 0 of
        Inl e \<Rightarrow> Inl e
      | Inr loss_smooth \<Rightarrow>
          Inr (if reduce then Scalar (sum_list loss_smooth) else Vector loss_smooth)))))"

text \<open>\<^verbatim>\<open>FenchelYoungLabelSmoothingLossCriterion.compute_loss\<close> and \<^verbatim>\<open>forward\<close>\<close>

definition fyls_compute_loss ::
  "loss_library \<Rightarrow> FenchelYoungLabelSmoothingLossCriterion \<Rightarrow> ('i, 'x) model \<Rightarrow> tensor3 \<times> 'x
     \<Rightarrow> 'i sample \<Rightarrow> bool \<Rightarrow> error + tensor \<times> tensor" where
  "fyls_compute_loss lib self mdl net_output smp reduce =
     (let logits = flat_logits net_output;
          tgt = flat_target mdl smp net_output;
          loss_ystar = lib (criterion self) (padding_idx self) (reduction_of reduce) logits tgt
      in case compute_smoothing self logits tgt reduce of
           Inl e \<Rightarrow> Inl e
         | Inr loss_smooth \<Rightarrow>
             (case tensor_add loss_ystar loss_smooth of
                Inl e \<Rightarrow> Inl e
              | Inr loss \<Rightarrow> Inr (loss, loss_ystar)))"

definition fyls_forward ::
  "loss_library \<Rightarrow> FenchelYoungLabelSmoothingLossCriterion \<Rightarrow> ('i, 'x) model \<Rightarrow> 'i sample
     \<Rightarrow> bool \<Rightarrow> error + tensor \<times> int \<times> logging_output" where
  "fyls_forward lib self mdl smp reduce =
     (let net_output = apply_model mdl (net_input smp)
      in case fyls_compute_loss lib self mdl net_output smp reduce of
           Inl e \<Rightarrow> Inl e
         | Inr (loss, loss_ystar) \<Rightarrow>
             (let sample_size =
                    (if sentence_avg self then int (length (target smp)) else ntokens smp);
                  logging_output =
                    [''loss'' \<mapsto> TensorVal loss,
                     ''loss_ystar'' \<mapsto> TensorVal loss_ystar,
                     ''ntokens'' \<mapsto> IntVal (ntokens smp),
                     ''nsentences'' \<mapsto> IntVal (int (length (target smp))),
                     ''sample_size'' \<mapsto> IntVal sample_size]
              in Inr (loss, sample_size, logging_output)))"

section \<open>Object lifetime\<close>

text \<open>
  The instance methods of \<^verbatim>\<open>EntmaxLossCriterion\<close> as transitions of the object's state:
  a call returns the object after the call and the call's result. Neither method body
  assigns an attribute of \<^verbatim>\<open>self\<close>.
\<close>

datatype ('i, 'x) method_call =
    Forward "('i, 'x) model" "'i sample" bool
  | ComputeLoss "('i, 'x) model" "tensor3 \<times> 'x" "'i sample" bool

datatype method_result =
    ForwardResult "tensor \<times> int \<times> logging_output"
  | ComputeLossResult "tensor \<times> tensor"

fun entmax_call ::
  "loss_library \<Rightarrow> EntmaxLossCriterion \<Rightarrow> ('i, 'x) method_call
     \<Rightarrow> EntmaxLossCriterion \<times> method_result" where
  "entmax_call lib self (Forward mdl smp reduce) =
     (self, ForwardResult (entmax_forward lib self mdl smp reduce))"
| "entmax_call lib self (ComputeLoss mdl net_output smp reduce) =
     (self, ComputeLossResult (entmax_compute_loss lib self mdl net_output smp reduce))"

fun entmax_calls ::
  "loss_library \<Rightarrow> EntmaxLossCriterion \<Rightarrow> ('i, 'x) method_call list
     \<Rightarrow> EntmaxLossCriterion \<times> method_result list" where
  "entmax_calls lib self [] = (self, [])"
| "entmax_calls lib self (c # cs) =
     (case entmax_call lib self c of
        (self1, r) \<Rightarrow>
          (case entmax_calls lib self1 cs of (self2, rs) \<Rightarrow> (self2, r # rs)))"

section \<open>Metric aggregation\<close>

text \<open>
  \<^verbatim>\<open>reduce_metrics\<close> reads logging records whose fields are scalars. \<open>dict_get\<close> is
  \<^verbatim>\<open>log.get(key, default)\<close>, \<open>py_sum\<close> is the builtin \<^verbatim>\<open>sum\<close> (a left fold from 0) and
  \<open>py_div\<close> is true division, which raises on a zero divisor (with a tensor operand torch
  returns a non-finite value there, which is no real number either). The result lists the
  calls of \<^verbatim>\<open>metrics.log_scalar(key, value, weight, round=...)\<close> in order; a division that
  raises leaves no call behind.
\<close>

type_synonym logging_record = "string \<rightharpoonup> real"

definition dict_get :: "logging_record \<Rightarrow> string \<Rightarrow> real \<Rightarrow> real" where
  "dict_get l k d = (case l k of None \<Rightarrow> d | Some v \<Rightarrow> v)"

definition py_sum :: "real list \<Rightarrow> real" where
  "py_sum xs = foldl (\<lambda>acc x. acc + x) 0 xs"

definition py_div :: "real \<Rightarrow> real \<Rightarrow> error + real" where
  "py_div a b = (if b = 0 then Inl ZeroDivisionError else Inr (a / b))"

record log_scalar_call =
  log_key :: string
  log_value :: real
  log_weight :: real
  log_round :: nat

definition entmax_reduce_metrics :: "logging_record list \<Rightarrow> error + log_scalar_call list" where
  "entmax_reduce_metrics logging_outputs =
     (let loss_sum = py_sum (map (\<lambda>l. dict_get l ''loss'' 0) logging_outputs);
          sample_size = py_sum (map (\<lambda>l. dict_get l ''sample_size'' 0) logging_outputs)
      in case py_div loss_sum sample_size of
           Inl e \<Rightarrow> Inl e
         | Inr v \<Rightarrow>
             Inr [\<lparr> log_key = ''loss'', log_value = v,
                     log_weight = sample_size, log_round = 3 \<rparr>])"

definition fyls_reduce_metrics :: "logging_record list \<Rightarrow> error + log_scalar_call list" where
  "fyls_reduce_metrics logging_outputs =
     (let loss_sum = py_sum (map (\<lambda>l. dict_get l ''loss'' 0) logging_outputs);
          base_loss_sum = py_sum (map (\<lambda>l. dict_get l ''loss_ystar'' 0) logging_outputs);
          sample_size = py_sum (map (\<lambda>l. dict_get l ''sample_size'' 0) logging_outputs)
      in case py_div loss_sum sample_size of
           Inl e \<Rightarrow> Inl e
         | Inr v \<Rightarrow>
             (case py_div base_loss_sum sample_size of
                Inl e \<Rightarrow> Inl e
              | Inr b \<Rightarrow>
                  Inr [\<lparr> log_key = ''loss'', log_value = v,
                          log_weight = sample_size, log_round = 3 \<rparr>,
                       \<lparr> log_key = ''base_loss'', log_value = b,
                          log_weight = sample_size, log_round = 3 \<rparr>]))"

text \<open>
  Modelled from the spec: the metrics module behind \<^verbatim>\<open>metrics.log_scalar\<close> is not part
  of the two source files. A logged scalar is reported rounded to the given number of
  decimal digits; ties go to the even neighbour, as Python's \<^verbatim>\<open>round\<close> does.
\<close>

definition round_half_even :: "real \<Rightarrow> int" where
  "round_half_even x =
     (let f = \<lfloor>x\<rfloor>; d = x - of_int f
      in if d < 1 / 2 then f
         else if d > 1 / 2 then f + 1
         else if even f then f else f + 1)"

definition py_round :: "real \<Rightarrow> nat \<Rightarrow> real" where
  "py_round x n = of_int (round_half_even (x * 10 ^ n)) / 10 ^ n"

definition reported :: "log_scalar_call \<Rightarrow> string \<times> real" where
  "reported c = (log_key c, py_round (log_value c) (log_round c))"

section \<open>The rules as the specification words them\<close>

text \<open>
  The specification's selection policy for the base criterion, its exact rule for
  \<open>z_bar\<close> at one position, and its smoothing term at one position (steps 1 to 4).
\<close>

definition select_functional :: "real \<Rightarrow> functional" where
  "select_functional shape_parameter =
     (if shape_parameter = 3 / 2 then Entmax15Loss
      else if shape_parameter = 2 then SparsemaxLoss
      else EntmaxBisectLoss shape_parameter)"

definition z_bar_rule :: "int \<Rightarrow> nat \<Rightarrow> real list \<Rightarrow> real" where
  "z_bar_rule ignore_index vocabulary_size row =
     (if 0 \<le> ignore_index \<and> ignore_index < int vocabulary_size
      then (sum_list row - row ! nat ignore_index) / (real vocabulary_size - 1)
      else sum_list row / real vocabulary_size)"

definition smoothing_term :: "real \<Rightarrow> int \<Rightarrow> nat \<Rightarrow> real list \<Rightarrow> int \<Rightarrow> real" where
  "smoothing_term smoothing_epsilon ignore_index vocabulary_size row t =
     (if t = ignore_index then 0
      else smoothing_epsilon * (row ! nat t - z_bar_rule ignore_index vocabulary_size row))"

definition valid_targets :: "tensor2 \<Rightarrow> int list \<Rightarrow> bool" where
  "valid_targets logits tgt =
     (length tgt = length (rows logits)
      \<and> list_all (\<lambda>t. 0 \<le> t \<and> t < int (ncols logits)) tgt)"

definition expected_sample_size :: "bool \<Rightarrow> 'i sample \<Rightarrow> int" where
  "expected_sample_size normalize_by_sentence smp =
     (if normalize_by_sentence then int (length (target smp)) else ntokens smp)"

text \<open>
  What the specification asks of a loss functional: a scalar under reduction "sum", one
  entry per position under "none". \<open>field_sum\<close> is the sum of one field over the
  records, a missing field counting as 0.
\<close>

definition shape_ok :: "bool \<Rightarrow> nat \<Rightarrow> tensor \<Rightarrow> bool" where
  "shape_ok reduce n t =
     (case t of Scalar a \<Rightarrow> reduce | Vector v \<Rightarrow> \<not> reduce \<and> length v = n)"

definition field_sum :: "string \<Rightarrow> logging_record list \<Rightarrow> real" where
  "field_sum k logs = sum_list (map (\<lambda>l. dict_get l k 0) logs)"

section \<open>Construction: results\<close>

text \<open>
  C1. Claimed: constructing the smoothing-capable criterion with \<open>loss_alpha = 1\<close> binds the
  standard cross-entropy functional. The code does not: the test for 1 is a separate
  \<^verbatim>\<open>if\<close>, so the following chain falls to its \<^verbatim>\<open>else\<close> branch and overwrites the
  attribute with the bisection functional at \<open>alpha = 1\<close>.
\<close>

theorem fyls_init_alpha_one_binds_bisect:
  "fyls_init tsk 1 eps sa =
     Inr \<lparr> padding_idx = pad tsk, sentence_avg = sa,
           criterion = EntmaxBisectLoss 1, label_smoothing = eps \<rparr>
   \<and> fyls_init tsk 1 eps sa \<noteq>
     Inr \<lparr> padding_idx = pad tsk, sentence_avg = sa,
           criterion = CrossEntropyLoss, label_smoothing = eps \<rparr>"
  by (simp add: fyls_init_def)

section \<open>Smoothing: results\<close>

lemma map2_same: "map2 f (map g xs) (map h xs) = map (\<lambda>x. f (g x) (h x)) xs"
  by (induction xs) simp_all

lemma z_bar_of_rows:
  "z_bar_of p logits = Inr (map (z_bar_rule p (ncols logits)) (rows logits))"
proof (cases "0 \<le> p \<and> p < int (ncols logits)")
  case True
  then have col: "select_col logits p = Inr (map (\<lambda>r. r ! nat p) (rows logits))"
    by (simp add: select_col_def Let_def)
  have sub: "broadcast2 (-) (sum_dim1 logits) (map (\<lambda>r. r ! nat p) (rows logits))
      = Inr (map (\<lambda>r. sum_list r - r ! nat p) (rows logits))"
    by (simp add: broadcast2_def sum_dim1_def map2_same)
  from True have den: "real_of_int (int (ncols logits) - 1) = real (ncols logits) - 1"
    by simp
  show ?thesis
    using True by (simp add: z_bar_of_def col sub z_bar_rule_def den)
next
  case False
  then show ?thesis
    by (auto simp: z_bar_of_def mean_dim1_def z_bar_rule_def)
qed

lemma gather1_valid:
  assumes "valid_targets logits tgt"
  shows "gather1 logits tgt = Inr (map2 (\<lambda>r j. r ! nat j) (rows logits) tgt)"
  using assms by (simp add: gather1_def valid_targets_def)

lemma map2_zip_left:
  "map2 f (map2 g xs ys) (map h xs) = map2 (\<lambda>x y. f (g x y) (h x)) xs ys"
proof (induction xs arbitrary: ys)
  case Nil
  show ?case by simp
next
  case (Cons x xs)
  show ?case by (cases ys) (simp_all add: Cons.IH)
qed

lemma map2_zip_right:
  "map2 f (map2 g xs ys) (map h ys) = map2 (\<lambda>x y. f (g x y) (h y)) xs ys"
proof (induction xs arbitrary: ys)
  case Nil
  show ?case by simp
next
  case (Cons x xs)
  show ?case by (cases ys) (simp_all add: Cons.IH)
qed

lemma map_map2: "map k (map2 g xs ys) = map2 (\<lambda>x y. k (g x y)) xs ys"
  by (simp add: comp_def case_prod_unfold)

lemma smoothing_terms:
  assumes "valid_targets logits tgt"
  shows "compute_smoothing self logits tgt reduce =
           Inr (let terms = map2 (smoothing_term (label_smoothing self) (padding_idx self)
                                    (ncols logits)) (rows logits) tgt
                in if reduce then Scalar (sum_list terms) else Vector terms)"
proof -
  let ?rows = "rows logits"
  let ?p = "padding_idx self"
  let ?zb = "z_bar_rule ?p (ncols logits)"
  from assms have len: "length tgt = length ?rows"
    by (simp add: valid_targets_def)
  have sub: "broadcast2 (-) (map2 (\<lambda>r j. r ! nat j) ?rows tgt) (map ?zb ?rows)
               = Inr (map2 (\<lambda>r j. r ! nat j - ?zb r) ?rows tgt)"
    using len by (simp add: broadcast2_def map2_zip_left)
  have scale: "map (\<lambda>d. label_smoothing self * d) (map2 (\<lambda>r j. r ! nat j - ?zb r) ?rows tgt)
               = map2 (\<lambda>r j. label_smoothing self * (r ! nat j - ?zb r)) ?rows tgt"
    by (rule map_map2)
  have lens: "length (map (\<lambda>t. t = ?p) tgt)
               = length (map2 (\<lambda>r j. label_smoothing self * (r ! nat j - ?zb r)) ?rows tgt)"
    using len by simp
  have fill: "masked_fill (map (\<lambda>d. label_smoothing self * d)
                             (map2 (\<lambda>r j. r ! nat j - ?zb r) ?rows tgt))
                          (map (\<lambda>t. t = ?p) tgt) 0
               = Inr (map2 (smoothing_term (label_smoothing self) ?p (ncols logits)) ?rows tgt)"
    unfolding scale masked_fill_def if_P [OF lens] map2_zip_right
    by (simp add: smoothing_term_def [abs_def])
  show ?thesis
    unfolding compute_smoothing_def gather1_valid [OF assms] z_bar_of_rows sum.case sub fill
    by (simp add: Let_def)
qed

text \<open>
  C3. At every position, \<open>z_bar\<close> is the sum of the row's logits minus the logit in the
  padding column, divided by the vocabulary size minus one, when the padding index is a
  column index (\<open>0 \<le> p < ncols\<close>); otherwise it is the mean of the row's logits.
\<close>

theorem z_bar_exact_rule:
  assumes "wf_tensor2 logits" and "i < length (rows logits)"
  shows "\<exists>z_bar. z_bar_of p logits = Inr z_bar \<and> length z_bar = length (rows logits) \<and>
           z_bar ! i =
             (if 0 \<le> p \<and> p < int (ncols logits)
              then (sum_list (rows logits ! i) - rows logits ! i ! nat p)
                     / (real (ncols logits) - 1)
              else sum_list (rows logits ! i) / real (length (rows logits ! i)))"
proof -
  from assms have "length (rows logits ! i) = ncols logits"
    by (simp add: wf_tensor2_def list_all_length)
  with assms(2) show ?thesis
    by (simp add: z_bar_of_rows z_bar_rule_def)
qed

theorem z_bar_exact_rule_witness:
  "wf_tensor2 \<lparr> ncols = 3, rows = [[1, 2, 6], [4, 0, 2]] \<rparr> \<and>
   z_bar_of 0 \<lparr> ncols = 3, rows = [[1, 2, 6], [4, 0, 2]] \<rparr> = Inr [4, 1] \<and>
   z_bar_of (-1) \<lparr> ncols = 3, rows = [[1, 2, 6], [4, 0, 2]] \<rparr> = Inr [3, 2]"
proof -
  let ?t = "\<lparr> ncols = 3, rows = [[1, 2, 6], [4, 0, 2]] \<rparr>"
  have wf: "wf_tensor2 ?t"
    by (simp add: wf_tensor2_def)
  have i0: "(0::nat) < length (rows ?t)" and i1: "(1::nat) < length (rows ?t)"
    by simp_all
  from z_bar_exact_rule [OF wf i0, of 0] z_bar_exact_rule [OF wf i1, of 0]
  have a: "z_bar_of 0 ?t = Inr [4, 1]"
    by (auto simp: length_Suc_conv)
  from z_bar_exact_rule [OF wf i0, of "-1"] z_bar_exact_rule [OF wf i1, of "-1"]
  have b: "z_bar_of (-1) ?t = Inr [3, 2]"
    by (auto simp: length_Suc_conv)
  from wf a b show ?thesis by simp
qed

text \<open>
  C2. For logits and in-range targets of the same number of positions, the smoothing term
  at a position is \<open>label_smoothing * (z_ystar - z_bar)\<close>, with \<open>z_ystar\<close> the logit at
  the target index, and exactly 0 where the target is the padding index; with
  \<open>reduce\<close> the terms are summed into a scalar, without it the vector of terms is
  returned.
\<close>

theorem smoothing_term_per_position:
  assumes "wf_tensor2 logits" and "valid_targets logits tgt"
  shows "\<exists>terms.
           compute_smoothing self logits tgt reduce =
             Inr (if reduce then Scalar (sum_list terms) else Vector terms) \<and>
           length terms = length tgt \<and>
           (\<forall>i < length tgt.
              terms ! i =
                (if tgt ! i = padding_idx self then 0
                 else label_smoothing self *
                        (rows logits ! i ! nat (tgt ! i)
                           - z_bar_rule (padding_idx self) (ncols logits) (rows logits ! i))))"
proof -
  let ?terms = "map2 (smoothing_term (label_smoothing self) (padding_idx self) (ncols logits))
                  (rows logits) tgt"
  from assms(2) have len: "length tgt = length (rows logits)"
    by (simp add: valid_targets_def)
  have "compute_smoothing self logits tgt reduce =
          Inr (if reduce then Scalar (sum_list ?terms) else Vector ?terms)"
    by (simp add: smoothing_terms [OF assms(2)] Let_def)
  moreover have "length ?terms = length tgt"
    using len by simp
  moreover have "\<forall>i < length tgt. ?terms ! i =
      (if tgt ! i = padding_idx self then 0
       else label_smoothing self *
              (rows logits ! i ! nat (tgt ! i)
                 - z_bar_rule (padding_idx self) (ncols logits) (rows logits ! i)))"
    using len by (simp add: smoothing_term_def)
  ultimately show ?thesis by blast
qed

theorem smoothing_term_per_position_witness:
  "wf_tensor2 \<lparr> ncols = 5, rows = [[1, 2, 3, 4, 5], [5, 4, 3, 2, 1]] \<rparr> \<and>
   valid_targets \<lparr> ncols = 5, rows = [[1, 2, 3, 4, 5], [5, 4, 3, 2, 1]] \<rparr> [2, 0] \<and>
   compute_smoothing
     \<lparr> padding_idx = 0, sentence_avg = False, criterion = Entmax15Loss,
       label_smoothing = 1 / 10 \<rparr>
     \<lparr> ncols = 5, rows = [[1, 2, 3, 4, 5], [5, 4, 3, 2, 1]] \<rparr> [2, 0] False
     = Inr (Vector [- 1 / 20, 0])"
proof -
  let ?t = "\<lparr> ncols = 5, rows = [[1, 2, 3, 4, 5], [5, 4, 3, 2, 1]] \<rparr>"
  let ?s = "\<lparr> padding_idx = 0, sentence_avg = False, criterion = Entmax15Loss,
              label_smoothing = 1 / 10 \<rparr>"
  have wf: "wf_tensor2 ?t"
    by (simp add: wf_tensor2_def)
  have vt: "valid_targets ?t [2, 0]"
    by (simp add: valid_targets_def)
  from smoothing_term_per_position [OF wf vt, of ?s False]
  obtain terms where c: "compute_smoothing ?s ?t [2, 0] False = Inr (Vector terms)"
    and l: "length terms = 2"
    and e: "\<forall>i < 2. terms ! i =
      (if [2, 0::int] ! i = 0 then 0
       else (1 / 10) * (rows ?t ! i ! nat ([2, 0] ! i) - z_bar_rule 0 5 (rows ?t ! i)))"
    by auto
  from e have "terms ! 0 = - 1 / 20" and "terms ! 1 = 0"
    by (simp_all add: z_bar_rule_def)
  with l have "terms = [- 1 / 20, 0]"
    by (auto simp: numeral_2_eq_2 length_Suc_conv)
  with wf vt c show ?thesis by simp
qed

section \<open>Construction and base loss: results\<close>

lemma entmax_calls_keep_self: "fst (entmax_calls lib self cs) = self"
proof (induction cs)
  case Nil
  show ?case by simp
next
  case (Cons c cs)
  have "fst (entmax_call lib self c) = self"
    by (cases c) simp_all
  with Cons show ?case
    by (simp add: case_prod_unfold)
qed

text \<open>
  C4. For \<open>loss_alpha > 1\<close> the base criterion is constructed with the closed-form
  \<open>Entmax15Loss\<close> at 1.5, with \<open>SparsemaxLoss\<close> at 2, and with the bisection functional
  carrying \<open>loss_alpha\<close> otherwise. The choice is made in the constructor only: no
  sequence of method calls changes the bound functional, and every loss computation
  applies the functional chosen there.
\<close>

theorem entmax_init_binds_functional:
  assumes "1 < loss_alpha"
  shows "\<exists>self.
           entmax_init tsk loss_alpha sa = Inr self \<and>
           (loss_alpha = 3 / 2 \<longrightarrow> criterion self = Entmax15Loss) \<and>
           (loss_alpha = 2 \<longrightarrow> criterion self = SparsemaxLoss) \<and>
           (loss_alpha \<noteq> 3 / 2 \<and> loss_alpha \<noteq> 2 \<longrightarrow>
              criterion self = EntmaxBisectLoss loss_alpha) \<and>
           (\<forall>cs. criterion (fst (entmax_calls lib self cs)) = criterion self) \<and>
           (\<forall>mdl net_output smp reduce.
              fst (entmax_compute_loss lib self mdl net_output smp reduce) =
                lib (select_functional loss_alpha) (pad tsk) (reduction_of reduce)
                    (flat_logits net_output) (flat_target mdl smp net_output))"
  using assms
  by (simp add: entmax_init_def entmax_calls_keep_self entmax_compute_loss_def
        select_functional_def Let_def)

theorem entmax_init_binds_functional_witness:
  "(1::real) < 3 / 2 \<and> (1::real) < 2 \<and> (1::real) < 6 / 5 \<and>
   map_sum id criterion (entmax_init \<lparr> pad = 1 \<rparr> (3 / 2) False) = Inr Entmax15Loss \<and>
   map_sum id criterion (entmax_init \<lparr> pad = 1 \<rparr> 2 False) = Inr SparsemaxLoss \<and>
   map_sum id criterion (entmax_init \<lparr> pad = 1 \<rparr> (6 / 5) False)
     = Inr (EntmaxBisectLoss (6 / 5))"
proof -
  let ?lib = "\<lambda>f p r l t. Scalar 0"
  have a: "(1::real) < 3 / 2" and b: "(1::real) < 2" and c: "(1::real) < 6 / 5"
    by simp_all
  from entmax_init_binds_functional [OF a, of "\<lparr> pad = 1 \<rparr>" False ?lib]
  obtain s1 where "entmax_init \<lparr> pad = 1 \<rparr> (3 / 2) False = Inr s1"
    and "criterion s1 = Entmax15Loss"
    by auto
  moreover
  from entmax_init_binds_functional [OF b, of "\<lparr> pad = 1 \<rparr>" False ?lib]
  obtain s2 where "entmax_init \<lparr> pad = 1 \<rparr> 2 False = Inr s2"
    and "criterion s2 = SparsemaxLoss"
    by auto
  moreover
  from entmax_init_binds_functional [OF c, of "\<lparr> pad = 1 \<rparr>" False ?lib]
  obtain s3 where "entmax_init \<lparr> pad = 1 \<rparr> (6 / 5) False = Inr s3"
    and "criterion s3 = EntmaxBisectLoss (6 / 5)"
    by auto
  ultimately show ?thesis
    using a b c by simp
qed

lemma compute_smoothing_no_assertion:
  "compute_smoothing self logits tgt reduce \<noteq> Inl AssertionError"
  by (auto simp: compute_smoothing_def gather1_def z_bar_of_def select_col_def Let_def
        broadcast2_def masked_fill_def split: sum.splits if_splits)

lemma tensor_add_no_assertion: "tensor_add a b \<noteq> Inl AssertionError"
  by (cases a; cases b) (auto simp: broadcast2_def split: sum.splits if_splits)

lemma fyls_compute_loss_no_assertion:
  "fyls_compute_loss lib self mdl net_output smp reduce \<noteq> Inl AssertionError"
  using compute_smoothing_no_assertion tensor_add_no_assertion
  by (auto simp: fyls_compute_loss_def Let_def split: sum.splits)

lemma fyls_forward_no_assertion:
  "fyls_forward lib self mdl smp reduce \<noteq> Inl AssertionError"
  using fyls_compute_loss_no_assertion
          [of lib self mdl "apply_model mdl (net_input smp)" smp reduce]
  by (auto simp: fyls_forward_def Let_def split: sum.splits prod.splits)

text \<open>
  C5. Constructing the base criterion fails with the assertion error exactly when
  \<open>loss_alpha \<le> 1\<close>, and constructing the smoothing-capable criterion exactly when
  \<open>loss_alpha < 1\<close>; otherwise construction succeeds. The failure belongs to
  construction: the per-batch methods of the smoothing-capable criterion never raise it
  (those of the base criterion have no failing path of their own), and an object exists
  only for an admitted \<open>loss_alpha\<close>.
\<close>

theorem init_fails_exactly_below_bound:
  "(entmax_init tsk loss_alpha sa = Inl AssertionError) = (loss_alpha \<le> 1) \<and>
   (\<exists>self. entmax_init tsk loss_alpha sa = Inr self) = (1 < loss_alpha) \<and>
   (fyls_init tsk loss_alpha eps sa = Inl AssertionError) = (loss_alpha < 1) \<and>
   (\<exists>self. fyls_init tsk loss_alpha eps sa = Inr self) = (1 \<le> loss_alpha) \<and>
   fyls_compute_loss lib fself mdl net_output smp reduce \<noteq> Inl AssertionError \<and>
   fyls_forward lib fself mdl smp reduce \<noteq> Inl AssertionError"
  using fyls_compute_loss_no_assertion [of lib fself mdl net_output smp reduce]
        fyls_forward_no_assertion [of lib fself mdl smp reduce]
  by (auto simp: entmax_init_def fyls_init_def Let_def)

text \<open>
  C9. For every batch, \<open>compute_loss\<close> of the base criterion returns a pair whose two
  components are the same value, the total loss given by the bound functional.
\<close>

theorem entmax_compute_loss_same_twice:
  "fst (entmax_compute_loss lib self mdl net_output smp reduce)
     = snd (entmax_compute_loss lib self mdl net_output smp reduce) \<and>
   entmax_compute_loss lib self mdl net_output smp reduce =
     (lib (criterion self) (padding_idx self) (reduction_of reduce)
          (flat_logits net_output) (flat_target mdl smp net_output),
      lib (criterion self) (padding_idx self) (reduction_of reduce)
          (flat_logits net_output) (flat_target mdl smp net_output))"
  by (simp add: entmax_compute_loss_def Let_def)

section \<open>Loss composition and sample size: results\<close>

lemma fyls_compute_loss_reduce:
  assumes vt: "valid_targets (flat_logits net_output) (flat_target mdl smp net_output)"
    and base: "lib (criterion self) (padding_idx self) (reduction_of True)
                 (flat_logits net_output) (flat_target mdl smp net_output) = Scalar b"
  shows "fyls_compute_loss lib self mdl net_output smp True =
           Inr (Scalar (b + sum_list (map2 (smoothing_term (label_smoothing self)
                  (padding_idx self) (ncols (flat_logits net_output)))
                  (rows (flat_logits net_output)) (flat_target mdl smp net_output))),
                Scalar b)"
  by (simp add: fyls_compute_loss_def Let_def smoothing_terms [OF vt] base)

lemma fyls_compute_loss_none:
  assumes vt: "valid_targets (flat_logits net_output) (flat_target mdl smp net_output)"
    and base: "lib (criterion self) (padding_idx self) (reduction_of False)
                 (flat_logits net_output) (flat_target mdl smp net_output) = Vector bs"
    and len: "length bs = length (flat_target mdl smp net_output)"
  shows "fyls_compute_loss lib self mdl net_output smp False =
           Inr (Vector (map2 (+) bs (map2 (smoothing_term (label_smoothing self)
                  (padding_idx self) (ncols (flat_logits net_output)))
                  (rows (flat_logits net_output)) (flat_target mdl smp net_output))),
                Vector bs)"
proof -
  from vt have "length (flat_target mdl smp net_output) = length (rows (flat_logits net_output))"
    by (simp add: valid_targets_def)
  with len show ?thesis
    by (simp add: fyls_compute_loss_def Let_def smoothing_terms [OF vt] base broadcast2_def)
qed

lemma fyls_forward_of_compute_loss:
  assumes "fyls_compute_loss lib self mdl (apply_model mdl (net_input smp)) smp reduce
             = Inr (loss, loss_ystar)"
  shows "\<exists>lg. fyls_forward lib self mdl smp reduce
                 = Inr (loss, expected_sample_size (sentence_avg self) smp, lg) \<and>
              lg ''loss'' = Some (TensorVal loss) \<and>
              lg ''loss_ystar'' = Some (TensorVal loss_ystar) \<and>
              lg ''sample_size'' = Some (IntVal (expected_sample_size (sentence_avg self) smp))"
  using assms by (simp add: fyls_forward_def Let_def expected_sample_size_def)

lemma fyls_forward_returns:
  assumes "fyls_forward lib self mdl smp reduce = Inr (loss, n, lg)"
  shows "n = expected_sample_size (sentence_avg self) smp \<and>
         lg ''sample_size'' = Some (IntVal (expected_sample_size (sentence_avg self) smp))"
  using assms
  by (auto simp: fyls_forward_def Let_def expected_sample_size_def
        split: sum.splits prod.splits)

lemma fyls_compute_loss_total:
  assumes vt: "valid_targets (flat_logits net_output) (flat_target mdl smp net_output)"
    and ok: "shape_ok reduce (length (flat_target mdl smp net_output))
               (lib (criterion self) (padding_idx self) (reduction_of reduce)
                  (flat_logits net_output) (flat_target mdl smp net_output))"
  shows "\<exists>loss. fyls_compute_loss lib self mdl net_output smp reduce =
           Inr (loss, lib (criterion self) (padding_idx self) (reduction_of reduce)
                  (flat_logits net_output) (flat_target mdl smp net_output))"
proof (cases reduce)
  case True
  with ok obtain b where bb: "lib (criterion self) (padding_idx self) (reduction_of True)
      (flat_logits net_output) (flat_target mdl smp net_output) = Scalar b"
    by (auto simp: shape_ok_def split: tensor.splits)
  from fyls_compute_loss_reduce [where lib = lib and self = self, OF vt bb] True bb
  show ?thesis
    by simp
next
  case False
  with ok obtain bs where bb: "lib (criterion self) (padding_idx self) (reduction_of False)
      (flat_logits net_output) (flat_target mdl smp net_output) = Vector bs"
    and lb: "length bs = length (flat_target mdl smp net_output)"
    by (auto simp: shape_ok_def split: tensor.splits)
  from fyls_compute_loss_none [where lib = lib and self = self, OF vt bb lb] False bb
  show ?thesis
    by simp
qed

text \<open>
  C6. For a batch whose flattened targets are in range and match the logits, and a
  functional that returns a scalar under "sum" and one entry per position under "none",
  \<open>compute_loss\<close> of the smoothing-capable criterion returns the base loss plus the
  smoothing term together with the base loss alone, and \<open>forward\<close> stores the sum under
  \<open>loss\<close> and the base loss alone under \<open>loss_ystar\<close> in the logging record.
\<close>

theorem fyls_loss_is_base_plus_smoothing:
  assumes "net_output = apply_model mdl (net_input smp)"
    and "logits = flat_logits net_output"
    and "tgt = flat_target mdl smp net_output"
    and "base = lib (criterion self) (padding_idx self) (reduction_of reduce) logits tgt"
    and "valid_targets logits tgt"
    and "shape_ok reduce (length tgt) base"
  shows "\<exists>smooth loss n lg.
           compute_smoothing self logits tgt reduce = Inr smooth \<and>
           tensor_add base smooth = Inr loss \<and>
           (case (base, smooth) of
              (Scalar b, Scalar s) \<Rightarrow> reduce \<and> loss = Scalar (b + s)
            | (Vector bs, Vector ss) \<Rightarrow>
                \<not> reduce \<and> length bs = length ss \<and> loss = Vector (map2 (+) bs ss)
            | _ \<Rightarrow> False) \<and>
           fyls_compute_loss lib self mdl net_output smp reduce = Inr (loss, base) \<and>
           fyls_forward lib self mdl smp reduce = Inr (loss, n, lg) \<and>
           lg ''loss'' = Some (TensorVal loss) \<and>
           lg ''loss_ystar'' = Some (TensorVal base)"
proof -
  let ?terms = "map2 (smoothing_term (label_smoothing self) (padding_idx self) (ncols logits))
                  (rows logits) tgt"
  have vt: "valid_targets (flat_logits net_output) (flat_target mdl smp net_output)"
    using assms by simp
  have sm: "compute_smoothing self logits tgt reduce =
              Inr (if reduce then Scalar (sum_list ?terms) else Vector ?terms)"
    using smoothing_terms [OF assms(5)] by (simp add: Let_def)
  have lt: "length ?terms = length tgt"
    using assms(5) by (simp add: valid_targets_def)
  show ?thesis
  proof (cases reduce)
    case True
    with assms(6) obtain b where b: "base = Scalar b"
      by (auto simp: shape_ok_def split: tensor.splits)
    with assms True
    have "lib (criterion self) (padding_idx self) (reduction_of True)
            (flat_logits net_output) (flat_target mdl smp net_output) = Scalar b"
      by simp
    from fyls_compute_loss_reduce [where lib = lib and self = self, OF vt this] assms
    have cl: "fyls_compute_loss lib self mdl net_output smp True =
                Inr (Scalar (b + sum_list ?terms), Scalar b)"
      by simp
    with assms(1) have "fyls_compute_loss lib self mdl (apply_model mdl (net_input smp)) smp True
        = Inr (Scalar (b + sum_list ?terms), Scalar b)"
      by simp
    from fyls_forward_of_compute_loss [OF this]
    obtain lg where "fyls_forward lib self mdl smp True
        = Inr (Scalar (b + sum_list ?terms), expected_sample_size (sentence_avg self) smp, lg)"
      and "lg ''loss'' = Some (TensorVal (Scalar (b + sum_list ?terms)))"
      and "lg ''loss_ystar'' = Some (TensorVal (Scalar b))"
      by blast
    with True b sm cl show ?thesis
      by simp
  next
    case False
    with assms(6) obtain bs where b: "base = Vector bs" and lb: "length bs = length tgt"
      by (auto simp: shape_ok_def split: tensor.splits)
    with assms False
    have "lib (criterion self) (padding_idx self) (reduction_of False)
            (flat_logits net_output) (flat_target mdl smp net_output) = Vector bs"
      and "length bs = length (flat_target mdl smp net_output)"
      by simp_all
    from fyls_compute_loss_none [where lib = lib and self = self, OF vt this] assms
    have cl: "fyls_compute_loss lib self mdl net_output smp False =
                Inr (Vector (map2 (+) bs ?terms), Vector bs)"
      by simp
    with assms(1) have "fyls_compute_loss lib self mdl (apply_model mdl (net_input smp)) smp False
        = Inr (Vector (map2 (+) bs ?terms), Vector bs)"
      by simp
    from fyls_forward_of_compute_loss [OF this]
    obtain lg where "fyls_forward lib self mdl smp False
        = Inr (Vector (map2 (+) bs ?terms), expected_sample_size (sentence_avg self) smp, lg)"
      and "lg ''loss'' = Some (TensorVal (Vector (map2 (+) bs ?terms)))"
      and "lg ''loss_ystar'' = Some (TensorVal (Vector bs))"
      by blast
    with False b lb lt sm cl show ?thesis
      by (simp add: broadcast2_def)
  qed
qed

theorem fyls_loss_is_base_plus_smoothing_witness:
  "valid_targets \<lparr> ncols = 5, rows = [[1, 2, 3, 4, 5], [5, 4, 3, 2, 1]] \<rparr> [2, 0] \<and>
   shape_ok True 2 (Scalar 3) \<and>
   fyls_compute_loss (\<lambda>f p r l t. Scalar 3)
     \<lparr> padding_idx = 0, sentence_avg = False, criterion = Entmax15Loss,
       label_smoothing = 1 / 10 \<rparr>
     \<lparr> apply_model = (\<lambda>u. (\<lparr> size_last = 5,
                                 blocks = [[[1, 2, 3, 4, 5], [5, 4, 3, 2, 1]]] \<rparr>, ())),
       get_targets = (\<lambda>s n. target s) \<rparr>
     (\<lparr> size_last = 5, blocks = [[[1, 2, 3, 4, 5], [5, 4, 3, 2, 1]]] \<rparr>, ())
     \<lparr> net_input = (), target = [[2, 0]], ntokens = 2 \<rparr> True
   = Inr (Scalar (59 / 20), Scalar 3)"
proof -
  let ?lib = "(\<lambda>f p r l t. Scalar 3) :: loss_library"
  let ?self = "\<lparr> padding_idx = 0, sentence_avg = False, criterion = Entmax15Loss,
                 label_smoothing = 1 / 10 \<rparr>"
  let ?out = "(\<lparr> size_last = 5, blocks = [[[1, 2, 3, 4, 5], [5, 4, 3, 2, 1]]] \<rparr>, ())"
  let ?mdl = "\<lparr> apply_model = (\<lambda>u::unit. ?out), get_targets = (\<lambda>s n. target s) \<rparr>"
  let ?smp = "\<lparr> net_input = (), target = [[2, 0]], ntokens = 2 \<rparr>"
  let ?logits = "\<lparr> ncols = 5, rows = [[1, 2, 3, 4, 5], [5, 4, 3, 2, 1]] \<rparr>"
  have h1: "?out = apply_model ?mdl (net_input ?smp)"
    by simp
  have h2: "?logits = flat_logits ?out"
    by (simp add: flat_logits_def view2_def)
  have h3: "[2, 0] = flat_target ?mdl ?smp ?out"
    by (simp add: flat_target_def)
  have h4: "Scalar 3 = ?lib (criterion ?self) (padding_idx ?self) (reduction_of True)
              ?logits [2, 0]"
    by simp
  have h5: "valid_targets ?logits [2, 0]"
    by (simp add: valid_targets_def)
  have h6: "shape_ok True (length [2, 0 :: int]) (Scalar 3)"
    by (simp add: shape_ok_def)
  have sm: "compute_smoothing ?self ?logits [2, 0] True = Inr (Scalar (- 1 / 20))"
    by (simp add: compute_smoothing_def gather1_def z_bar_of_def select_col_def sum_dim1_def
          broadcast2_def masked_fill_def Let_def)
  from fyls_loss_is_base_plus_smoothing [OF h1 h2 h3 h4 h5 h6]
  obtain smooth loss where "compute_smoothing ?self ?logits [2, 0] True = Inr smooth"
    and "tensor_add (Scalar 3) smooth = Inr loss"
    and "fyls_compute_loss ?lib ?self ?mdl ?out ?smp True = Inr (loss, Scalar 3)"
    by blast
  with sm h5 show ?thesis
    by (auto simp: shape_ok_def)
qed

text \<open>
  C10. In both criteria the sample size returned by \<open>forward\<close>, which is also the
  \<open>sample_size\<close> entry of the logging record, is the number of sentences of the batch
  (\<open>target.size(0)\<close>) when \<open>sentence_avg\<close> is set and the batch's \<open>ntokens\<close> otherwise,
  taken as the batch gives it whatever the targets are. The base criterion always
  returns; the smoothing-capable one returns on every batch with in-range targets.
\<close>

theorem sample_size_by_flag:
  "fst (snd (entmax_forward lib self mdl smp reduce))
     = (if sentence_avg self then int (length (target smp)) else ntokens smp) \<and>
   snd (snd (entmax_forward lib self mdl smp reduce)) ''sample_size''
     = Some (IntVal (if sentence_avg self then int (length (target smp)) else ntokens smp)) \<and>
   (\<forall>loss n lg.
      fyls_forward lib fself mdl smp reduce = Inr (loss, n, lg) \<longrightarrow>
        n = (if sentence_avg fself then int (length (target smp)) else ntokens smp) \<and>
        lg ''sample_size'' = Some (IntVal n)) \<and>
   (valid_targets (flat_logits (apply_model mdl (net_input smp)))
                  (flat_target mdl smp (apply_model mdl (net_input smp))) \<and>
    shape_ok reduce (length (flat_target mdl smp (apply_model mdl (net_input smp))))
      (lib (criterion fself) (padding_idx fself) (reduction_of reduce)
           (flat_logits (apply_model mdl (net_input smp)))
           (flat_target mdl smp (apply_model mdl (net_input smp)))) \<longrightarrow>
    (\<exists>loss lg.
       fyls_forward lib fself mdl smp reduce =
         Inr (loss, (if sentence_avg fself then int (length (target smp)) else ntokens smp),
              lg)))"
proof (intro conjI allI impI)
  show "fst (snd (entmax_forward lib self mdl smp reduce))
     = (if sentence_avg self then int (length (target smp)) else ntokens smp)"
    by (simp add: entmax_forward_def Let_def)
  show "snd (snd (entmax_forward lib self mdl smp reduce)) ''sample_size''
     = Some (IntVal (if sentence_avg self then int (length (target smp)) else ntokens smp))"
    by (simp add: entmax_forward_def Let_def)
next
  fix loss n lg
  assume r: "fyls_forward lib fself mdl smp reduce = Inr (loss, n, lg)"
  from fyls_forward_returns [OF r]
  show "n = (if sentence_avg fself then int (length (target smp)) else ntokens smp)"
    and "lg ''sample_size'' = Some (IntVal n)"
    by (simp_all add: expected_sample_size_def)
next
  let ?out = "apply_model mdl (net_input smp)"
  assume "valid_targets (flat_logits ?out) (flat_target mdl smp ?out) \<and>
    shape_ok reduce (length (flat_target mdl smp ?out))
      (lib (criterion fself) (padding_idx fself) (reduction_of reduce)
           (flat_logits ?out) (flat_target mdl smp ?out))"
  then have vt: "valid_targets (flat_logits ?out) (flat_target mdl smp ?out)"
    and ok: "shape_ok reduce (length (flat_target mdl smp ?out))
      (lib (criterion fself) (padding_idx fself) (reduction_of reduce)
           (flat_logits ?out) (flat_target mdl smp ?out))"
    by simp_all
  from fyls_compute_loss_total [where lib = lib and self = fself, OF vt ok]
  obtain loss where "fyls_compute_loss lib fself mdl ?out smp reduce =
      Inr (loss, lib (criterion fself) (padding_idx fself) (reduction_of reduce)
                   (flat_logits ?out) (flat_target mdl smp ?out))"
    by blast
  from fyls_forward_of_compute_loss [OF this]
  show "\<exists>loss lg. fyls_forward lib fself mdl smp reduce =
         Inr (loss, (if sentence_avg fself then int (length (target smp)) else ntokens smp),
              lg)"
    by (auto simp: expected_sample_size_def)
qed

theorem sample_size_by_flag_witness:
  "valid_targets \<lparr> ncols = 5, rows = [[1, 2, 3, 4, 5], [5, 4, 3, 2, 1]] \<rparr> [2, 0] \<and>
   shape_ok True 2 (Scalar 3) \<and>
   (\<exists>loss lg.
      fyls_forward (\<lambda>f p r l t. Scalar 3)
        \<lparr> padding_idx = 0, sentence_avg = False, criterion = Entmax15Loss,
          label_smoothing = 1 / 10 \<rparr>
        \<lparr> apply_model = (\<lambda>u. (\<lparr> size_last = 5,
                                    blocks = [[[1, 2, 3, 4, 5], [5, 4, 3, 2, 1]]] \<rparr>, ())),
          get_targets = (\<lambda>s n. target s) \<rparr>
        \<lparr> net_input = (), target = [[2, 0]], ntokens = 2 \<rparr> True
      = Inr (loss, 2, lg)) \<and>
   fst (snd (entmax_forward (\<lambda>f p r l t. Scalar 3)
        \<lparr> padding_idx = 0, sentence_avg = True, criterion = Entmax15Loss \<rparr>
        \<lparr> apply_model = (\<lambda>u. (\<lparr> size_last = 5,
                                    blocks = [[[1, 2, 3, 4, 5], [5, 4, 3, 2, 1]]] \<rparr>, ())),
          get_targets = (\<lambda>s n. target s) \<rparr>
        \<lparr> net_input = (), target = [[2, 0]], ntokens = 2 \<rparr> True)) = 1"
proof -
  let ?lib = "(\<lambda>f p r l t. Scalar 3) :: loss_library"
  let ?fself = "\<lparr> padding_idx = 0, sentence_avg = False, criterion = Entmax15Loss,
                  label_smoothing = 1 / 10 \<rparr>"
  let ?self = "\<lparr> padding_idx = 0, sentence_avg = True, criterion = Entmax15Loss \<rparr>"
  let ?out = "(\<lparr> size_last = 5, blocks = [[[1, 2, 3, 4, 5], [5, 4, 3, 2, 1]]] \<rparr>, ())"
  let ?mdl = "\<lparr> apply_model = (\<lambda>u::unit. ?out), get_targets = (\<lambda>s n. target s) \<rparr>"
  let ?smp = "\<lparr> net_input = (), target = [[2, 0]], ntokens = 2 \<rparr>"
  note t = sample_size_by_flag [where lib = ?lib and self = ?self and fself = ?fself
             and mdl = ?mdl and smp = ?smp and reduce = True]
  have vt: "valid_targets \<lparr> ncols = 5, rows = [[1, 2, 3, 4, 5], [5, 4, 3, 2, 1]] \<rparr> [2, 0]"
    by (simp add: valid_targets_def)
  have ok: "shape_ok True 2 (Scalar 3)"
    by (simp add: shape_ok_def)
  have hyp: "valid_targets (flat_logits (apply_model ?mdl (net_input ?smp)))
                  (flat_target ?mdl ?smp (apply_model ?mdl (net_input ?smp))) \<and>
    shape_ok True (length (flat_target ?mdl ?smp (apply_model ?mdl (net_input ?smp))))
      (?lib (criterion ?fself) (padding_idx ?fself) (reduction_of True)
           (flat_logits (apply_model ?mdl (net_input ?smp)))
           (flat_target ?mdl ?smp (apply_model ?mdl (net_input ?smp))))"
    using vt by (simp add: flat_logits_def flat_target_def view2_def shape_ok_def)
  from t hyp have "\<exists>loss lg. fyls_forward ?lib ?fself ?mdl ?smp True =
      Inr (loss, (if sentence_avg ?fself then int (length (target ?smp)) else ntokens ?smp), lg)"
    by blast
  then have a: "\<exists>loss lg. fyls_forward ?lib ?fself ?mdl ?smp True = Inr (loss, 2, lg)"
    by simp
  from t have "fst (snd (entmax_forward ?lib ?self ?mdl ?smp True))
      = (if sentence_avg ?self then int (length (target ?smp)) else ntokens ?smp)"
    by blast
  then have b: "fst (snd (entmax_forward ?lib ?self ?mdl ?smp True)) = 1"
    by simp
  from vt ok a b show ?thesis
    by blast
qed

section \<open>Metric aggregation: results\<close>

lemma py_sum_acc: "foldl (\<lambda>acc x. acc + x) a xs = a + sum_list xs"
  for a :: real
  by (induction xs arbitrary: a) (simp_all add: add.assoc)

lemma py_sum_eq: "py_sum (map (\<lambda>l. dict_get l k 0) logs) = field_sum k logs"
  by (simp add: py_sum_def field_sum_def py_sum_acc)

lemma entmax_reduce_metrics_eq:
  "entmax_reduce_metrics logs =
     (if field_sum ''sample_size'' logs = 0 then Inl ZeroDivisionError
      else Inr [\<lparr> log_key = ''loss'',
                  log_value = field_sum ''loss'' logs / field_sum ''sample_size'' logs,
                  log_weight = field_sum ''sample_size'' logs, log_round = 3 \<rparr>])"
  by (simp add: entmax_reduce_metrics_def py_sum_eq py_div_def Let_def)

lemma fyls_reduce_metrics_eq:
  "fyls_reduce_metrics logs =
     (if field_sum ''sample_size'' logs = 0 then Inl ZeroDivisionError
      else Inr [\<lparr> log_key = ''loss'',
                  log_value = field_sum ''loss'' logs / field_sum ''sample_size'' logs,
                  log_weight = field_sum ''sample_size'' logs, log_round = 3 \<rparr>,
                \<lparr> log_key = ''base_loss'',
                  log_value = field_sum ''loss_ystar'' logs / field_sum ''sample_size'' logs,
                  log_weight = field_sum ''sample_size'' logs, log_round = 3 \<rparr>])"
  by (simp add: fyls_reduce_metrics_def py_sum_eq py_div_def Let_def)


lemma py_round_two_thirds: "py_round (20 / 30) 3 = 667 / 1000"
proof -
  have "\<lfloor>(2000::real) / 3\<rfloor> = 666"
    by linarith
  then show ?thesis
    by (simp add: py_round_def round_half_even_def Let_def)
qed

text \<open>
  C7. For records whose sample sizes do not sum to zero, \<open>reduce_metrics\<close> logs the sum
  of the \<open>loss\<close> fields divided by the sum of the \<open>sample_size\<close> fields with rounding to 3
  digits, so that the reported loss is that quotient rounded to 3 decimals; the smoothing
  variant reports \<open>base_loss\<close> likewise from the \<open>loss_ystar\<close> fields. Two records with
  sample sizes 10 and 20 and losses 5 and 15 give a reported loss of 0.667.
\<close>

theorem reduce_metrics_reports_quotient:
  assumes "field_sum ''sample_size'' logs \<noteq> 0"
  shows "(\<exists>c. entmax_reduce_metrics logs = Inr [c] \<and>
              log_value c = field_sum ''loss'' logs / field_sum ''sample_size'' logs \<and>
              log_round c = 3 \<and>
              reported c = (''loss'',
                py_round (field_sum ''loss'' logs / field_sum ''sample_size'' logs) 3)) \<and>
         (\<exists>c b. fyls_reduce_metrics logs = Inr [c, b] \<and>
              log_value c = field_sum ''loss'' logs / field_sum ''sample_size'' logs \<and>
              log_value b = field_sum ''loss_ystar'' logs / field_sum ''sample_size'' logs \<and>
              log_round c = 3 \<and> log_round b = 3 \<and>
              reported c = (''loss'',
                py_round (field_sum ''loss'' logs / field_sum ''sample_size'' logs) 3) \<and>
              reported b = (''base_loss'',
                py_round (field_sum ''loss_ystar'' logs / field_sum ''sample_size'' logs) 3)) \<and>
         (\<exists>c. entmax_reduce_metrics
                 [[''loss'' \<mapsto> 5, ''sample_size'' \<mapsto> 10],
                  [''loss'' \<mapsto> 15, ''sample_size'' \<mapsto> 20]] = Inr [c] \<and>
              reported c = (''loss'', 667 / 1000))"
proof (intro conjI)
  show "\<exists>c. entmax_reduce_metrics logs = Inr [c] \<and>
          log_value c = field_sum ''loss'' logs / field_sum ''sample_size'' logs \<and>
          log_round c = 3 \<and>
          reported c = (''loss'',
            py_round (field_sum ''loss'' logs / field_sum ''sample_size'' logs) 3)"
    using assms by (simp add: entmax_reduce_metrics_eq reported_def)
  show "\<exists>c b. fyls_reduce_metrics logs = Inr [c, b] \<and>
          log_value c = field_sum ''loss'' logs / field_sum ''sample_size'' logs \<and>
          log_value b = field_sum ''loss_ystar'' logs / field_sum ''sample_size'' logs \<and>
          log_round c = 3 \<and> log_round b = 3 \<and>
          reported c = (''loss'',
            py_round (field_sum ''loss'' logs / field_sum ''sample_size'' logs) 3) \<and>
          reported b = (''base_loss'',
            py_round (field_sum ''loss_ystar'' logs / field_sum ''sample_size'' logs) 3)"
    using assms by (simp add: fyls_reduce_metrics_eq reported_def)
  let ?two = "[[''loss'' \<mapsto> 5, ''sample_size'' \<mapsto> 10],
               [''loss'' \<mapsto> 15, ''sample_size'' \<mapsto> (20::real)]]"
  have s: "field_sum ''sample_size'' ?two = 30" and l: "field_sum ''loss'' ?two = 20"
    by (simp_all add: field_sum_def dict_get_def)
  show "\<exists>c. entmax_reduce_metrics ?two = Inr [c] \<and> reported c = (''loss'', 667 / 1000)"
    using py_round_two_thirds by (simp add: entmax_reduce_metrics_eq s l reported_def)
qed

theorem reduce_metrics_reports_quotient_witness:
  "field_sum ''sample_size''
     [[''loss'' \<mapsto> 5, ''loss_ystar'' \<mapsto> 4, ''sample_size'' \<mapsto> 10],
      [''loss'' \<mapsto> 15, ''loss_ystar'' \<mapsto> 11, ''sample_size'' \<mapsto> 20]] \<noteq> 0 \<and>
   (\<exists>c b. fyls_reduce_metrics
      [[''loss'' \<mapsto> 5, ''loss_ystar'' \<mapsto> 4, ''sample_size'' \<mapsto> 10],
       [''loss'' \<mapsto> 15, ''loss_ystar'' \<mapsto> 11, ''sample_size'' \<mapsto> 20]] = Inr [c, b] \<and>
      reported c = (''loss'', 667 / 1000) \<and> reported b = (''base_loss'', 1 / 2))"
proof -
  let ?logs = "[[''loss'' \<mapsto> 5, ''loss_ystar'' \<mapsto> 4, ''sample_size'' \<mapsto> 10],
                [''loss'' \<mapsto> 15, ''loss_ystar'' \<mapsto> 11, ''sample_size'' \<mapsto> (20::real)]]"
  have s: "field_sum ''sample_size'' ?logs = 30"
    and l: "field_sum ''loss'' ?logs = 20"
    and y: "field_sum ''loss_ystar'' ?logs = 15"
    by (simp_all add: field_sum_def dict_get_def)
  have nz: "field_sum ''sample_size'' ?logs \<noteq> 0"
    by (simp add: s)
  have half: "py_round (15 / 30) 3 = 1 / 2"
    by (simp add: py_round_def round_half_even_def Let_def)
  from reduce_metrics_reports_quotient [OF nz]
  have "\<exists>c b. fyls_reduce_metrics ?logs = Inr [c, b] \<and>
          reported c = (''loss'', py_round (20 / 30) 3) \<and>
          reported b = (''base_loss'', py_round (15 / 30) 3)"
    unfolding s l y by blast
  with nz show ?thesis
    unfolding py_round_two_thirds half by blast
qed



end
